theory Spec2Isabelle
  imports Main "HOL-Library.Sublist"
begin

section \<open>Strings and the Python primitives the planner code uses\<close>

text \<open>
  Python strings are modelled as \<open>string\<close> (lists of characters). The character classes
  of the regular expressions (\<open>\d\<close>, \<open>\w\<close>, \<open>\s\<close>) and of \<open>str.strip\<close> are
  modelled on the ASCII range: digits \<open>0-9\<close>, word characters \<open>[A-Za-z0-9_]\<close>,
  white space the ten ASCII code points for which \<open>str.isspace\<close> holds.
\<close>

definition nl :: char where
  "nl = CHR 0x0A"

definition dquote :: char where
  "dquote = CHR 0x22"

definition squote :: char where
  "squote = CHR 0x27"

definition is_digit :: "char \<Rightarrow> bool" where
  "is_digit c = (c \<in> set ''0123456789'')"

definition is_word :: "char \<Rightarrow> bool" where
  "is_word c = (c \<in> set ''abcdefghijklmnopqrstuvwxyzABCDEFGHIJKLMNOPQRSTUVWXYZ0123456789_'')"

definition is_space :: "char \<Rightarrow> bool" where
  "is_space c = (c \<in> set [CHR 0x09, CHR 0x0A, CHR 0x0B, CHR 0x0C, CHR 0x0D,
                             CHR 0x1C, CHR 0x1D, CHR 0x1E, CHR 0x1F, CHR 0x20])"

text \<open>\<open>str.strip()\<close>: white space removed at both ends.\<close>

definition strip :: "string \<Rightarrow> string" where
  "strip s = rev (dropWhile is_space (rev (dropWhile is_space s)))"

text \<open>\<open>str(n)\<close> for a non-negative integer, and \<open>int(s)\<close> for a string of digits.\<close>

definition digit_char :: "nat \<Rightarrow> char" where
  "digit_char d = ''0123456789'' ! (d mod 10)"

fun show_nat :: "nat \<Rightarrow> string" where
  "show_nat n = (if n < 10 then [digit_char n] else show_nat (n div 10) @ [digit_char (n mod 10)])"

declare show_nat.simps [simp del]

definition digit_val :: "char \<Rightarrow> nat" where
  "digit_val c = of_char c - 48"

definition nat_of_digits :: "string \<Rightarrow> nat" where
  "nat_of_digits ds = foldl (\<lambda>n c. 10 * n + digit_val c) 0 ds"







section \<open>Errors\<close>

text \<open>
  The exceptions the modelled code can raise. \<open>TinyAgentEarlyStop\<close> derives from
  \<open>BaseException\<close>; all the others derive from \<open>Exception\<close>.
\<close>

datatype py_error =
    UnboundLocalError
  | AssertionError string
  | KeyError string
  | ToolNotFound string
  | PyException string
  | TinyAgentEarlyStop string

definition is_exception :: "py_error \<Rightarrow> bool" where
  "is_exception e = (case e of TinyAgentEarlyStop _ \<Rightarrow> False | _ \<Rightarrow> True)"

text \<open>\<open>str(e)\<close>: the message an exception prints.\<close>

fun error_str :: "py_error \<Rightarrow> string" where
  "error_str UnboundLocalError = ''cannot access local variable'' "
| "error_str (AssertionError m) = m"
| "error_str (KeyError k) = [squote] @ k @ [squote]"
| "error_str (ToolNotFound m) = m"
| "error_str (PyException m) = m"
| "error_str (TinyAgentEarlyStop m) = m"

section \<open>Argument parsing (\<open>plan_utils._parse_llm_compiler_action_args\<close>)\<close>

text \<open>
  The values \<open>ast.literal_eval\<close> can produce. The evaluator itself is Python's; it is a
  parameter \<open>lit\<close> of the model, with \<open>None\<close> for every input on which it raises.
\<close>

datatype pyval =
    PNone
  | PBool bool
  | PInt int
  | PStr string
  | PList "pyval list"
  | PTuple "pyval list"
  | POther string

type_synonym literal_eval = "string \<Rightarrow> pyval option"

fun is_list_or_tuple :: "pyval \<Rightarrow> bool" where
  "is_list_or_tuple (PList _) = True"
| "is_list_or_tuple (PTuple _) = True"
| "is_list_or_tuple _ = False"

definition parse_llm_compiler_action_args :: "literal_eval \<Rightarrow> string \<Rightarrow> pyval" where
  "parse_llm_compiler_action_args lit args =
     (if args = [] then PTuple []
      else (let v = (case lit args of Some r \<Rightarrow> r | None \<Rightarrow> PStr args)
            in if \<not> is_list_or_tuple v then PTuple [v] else v))"

section \<open>The planner prompts (\<open>planner.generate_llm_compiler_prompt\<close>, \<open>Planner.run_llm\<close>)\<close>

text \<open>A tool as the prompt generator and the parser see it: its name and its description.\<close>

record tool =
  tool_name :: string
  description :: string

text \<open>
  Modelled from the spec: the module \<open>llm_compiler/constants.py\<close> is not part of the
  sources; the plan terminator is the literal \<open><END_OF_PLAN>\<close> and the joinner
  decisions are \<open>Finish\<close> and \<open>Replan\<close>.
\<close>

definition END_OF_PLAN :: string where
  "END_OF_PLAN = ''<END_OF_PLAN>''"



definition JOIN_DESCRIPTION :: string where
  "JOIN_DESCRIPTION =
     ''join():'' @ [nl] @
     '' - Collects and combines results from prior actions.'' @ [nl] @
     '' - A LLM agent is called upon invoking join to either finalize '' @
     ''the user query or wait until the plans are executed.'' @ [nl] @
     '' - join should always be the last action in the plan, and will '' @
     ''be called in two scenarios:'' @ [nl] @
     ''   (a) if the answer can be determined by gathering the outputs '' @
     ''from tasks to generate the final response.'' @ [nl] @
     ''   (b) if the answer cannot be determined in the planning phase '' @
     ''before you execute the plans. ''"

text \<open>The opening sentence, with the number of action types \<open>len(tools) + 1\<close>.\<close>

definition prompt_opening :: "nat \<Rightarrow> string" where
  "prompt_opening n =
     ''Given a user query, create a plan to solve it with the utmost '' @
     ''parallelizability. Each plan should comprise an action from '' @
     ''the following '' @ show_nat n @ '' types:'' @ [nl]"

definition prompt_guidelines :: string where
  "prompt_guidelines =
     ''Guidelines:'' @ [nl] @
     '' - Each action described above contains input/output types and '' @
     ''description.'' @ [nl] @
     ''    - You must strictly adhere to the input and output types '' @
     ''for each action.'' @ [nl] @
     ''    - The action descriptions contain the guidelines. You MUST '' @
     ''strictly follow those guidelines when you use the actions.'' @ [nl] @
     '' - Each action in the plan should strictly be one of the above '' @
     ''types. Follow the Python conventions for each action.'' @ [nl] @
     '' - Each action MUST have a unique ID, which is strictly increasing.'' @
     [nl] @ '' - Inputs for actions can either be constants or outputs from '' @
     ''preceding actions. In the latter case, use the format $id to '' @
     ''denote the ID of the previous action whose output will be the '' @
     ''input.'' @ [nl] @
     '' - Always call join as the last action in the plan. Say '' @ [squote] @
     END_OF_PLAN @
     [squote] @ '' after you call join'' @ [nl] @
     '' - Ensure the plan maximizes parallelizability.'' @ [nl] @
     '' - Only use the provided action types. If a query cannot be '' @
     ''addressed using these, invoke the join action for the next steps.'' @
     [nl] @ '' - Never explain the plan with comments (e.g. #).'' @ [nl] @
     '' - Never introduce new actions other than the ones provided.'' @ [nl] @ [nl]"

definition prompt_replan_clauses :: string where
  "prompt_replan_clauses =
     '' - You are given '' @ [dquote] @ ''Previous Plan'' @ [dquote] @
     '' which is the plan that the previous agent created along with '' @
     ''the execution results (given as Observation) of each plan and '' @
     ''a general thought (given as Thought) about the executed results.You '' @
     ''MUST use these information to create the next plan under '' @ [dquote] @
     ''Current Plan'' @ [dquote] @ ''.'' @ [nl] @
     '' - When starting the Current Plan, you should start with '' @ [dquote] @
     ''Thought'' @ [dquote] @ '' that outlines the strategy for the next plan.'' @
     [nl] @ '' - In the Current Plan, you should NEVER repeat the actions '' @
     ''that are already executed in the Previous Plan.'' @ [nl]"

text \<open>
  The loop \<open>for i, tool in enumerate(tools)\<close>: the state is the prompt built so far and
  the loop variable \<open>i\<close>, which is unbound (\<open>None\<close>) until the first iteration binds it.
  The second argument is the position \<open>enumerate\<close> has reached.
\<close>

fun tools_loop :: "string \<times> nat option \<Rightarrow> nat \<Rightarrow> tool list \<Rightarrow> string \<times> nat option" where
  "tools_loop st k [] = st"
| "tools_loop (pfx, i) k (t # ts) =
     tools_loop (pfx @ show_nat (k + 1) @ ''. '' @ description t @ [nl], Some k) (k + 1) ts"

text \<open>
  Everything after the join entry: the guidelines, the custom instructions when they are
  given and not empty, the replan clauses, and the examples.
\<close>

definition prompt_rest :: "string \<Rightarrow> string option \<Rightarrow> bool \<Rightarrow> string" where
  "prompt_rest example_prompt custom_instructions is_replan =
     prompt_guidelines @
     (case custom_instructions of
        None \<Rightarrow> []
      | Some ci \<Rightarrow> if ci = [] then [] else ci @ [nl] @ [nl]) @
     (if is_replan then prompt_replan_clauses else []) @
     ''Here are some examples:'' @ [nl] @ [nl] @
     example_prompt"

definition generate_llm_compiler_prompt ::
  "tool list \<Rightarrow> string \<Rightarrow> string option \<Rightarrow> bool \<Rightarrow> py_error + string" where
  "generate_llm_compiler_prompt tools example_prompt custom_instructions is_replan =
     (case tools_loop (prompt_opening (length tools + 1), None) 0 tools of
        (pfx, None) \<Rightarrow> Inl UnboundLocalError
      | (pfx, Some i) \<Rightarrow>
          Inr (pfx @ show_nat (i + 2) @ ''. '' @ JOIN_DESCRIPTION @ [nl] @ [nl] @
               prompt_rest example_prompt custom_instructions is_replan))"

text \<open>
  The planner keeps the two system prompts. \<open>run_llm\<close> chooses the system prompt and
  builds the human prompt from the inputs, a dictionary from names to the text their
  values print as; the assertion and the dictionary lookups are the ways it can fail
  before the language model is called.
\<close>

record planner =
  system_prompt :: string
  system_prompt_replan :: string

definition run_llm_prompts ::
  "planner \<Rightarrow> (string \<rightharpoonup> string) \<Rightarrow> bool \<Rightarrow> py_error + (string \<times> string)" where
  "run_llm_prompts p inputs is_replan =
     (if is_replan then
        (if inputs ''context'' = None
         then Inl (AssertionError ''If replanning, context must be provided'')
         else (case inputs ''input'' of
                 None \<Rightarrow> Inl (KeyError ''input'')
               | Some q \<Rightarrow>
                   (case inputs ''context'' of
                      None \<Rightarrow> Inl (KeyError ''context'')
                    | Some c \<Rightarrow>
                        Inr (system_prompt_replan p, ''Question: '' @ q @ [nl] @ c @ [nl]))))
      else
        (case inputs ''input'' of
           None \<Rightarrow> Inl (KeyError ''input'')
         | Some q \<Rightarrow> Inr (system_prompt p, ''Question: '' @ q)))"

section \<open>The joinner output parser (\<open>plan_utils.get_parsed_joinner_output\<close>)\<close>

text \<open>
  \<open>s.split(sep)\<close> for a separator of several characters: the occurrences of \<open>sep\<close> are
  found from left to right and do not overlap. The counter is the number of characters
  of the current occurrence still to skip; the accumulator holds the current piece,
  reversed.
\<close>

fun split_str_aux :: "string \<Rightarrow> nat \<Rightarrow> string \<Rightarrow> string \<Rightarrow> string list" where
  "split_str_aux sep k acc [] = [rev acc]"
| "split_str_aux sep (Suc k) acc (c # cs) = split_str_aux sep k acc cs"
| "split_str_aux sep 0 acc (c # cs) =
     (if prefix sep (c # cs) then rev acc # split_str_aux sep (length sep - 1) [] cs
      else split_str_aux sep 0 (c # acc) cs)"

definition split_str :: "string \<Rightarrow> string \<Rightarrow> string list" where
  "split_str sep s = split_str_aux sep 0 [] s"




section \<open>Tasks and the plan grammar (\<open>plan_utils.THOUGHT_PATTERN\<close>, \<open>ACTION_PATTERN\<close>)\<close>

text \<open>
  A task, with the fields the parsers set. The fields \<open>tool\<close> and \<open>stringify_rule\<close> of
  the source hold callables and are left out. \<open>thought\<close> and \<open>observation\<close> can be
  Python's \<open>None\<close>.
\<close>

record task =
  idx :: nat
  name :: string
  args :: pyval
  dependencies :: "nat list"
  thought :: "string option"
  observation :: "string option"
  is_join :: bool

text \<open>
  \<open>re.match(THOUGHT_PATTERN, s)\<close> with \<open>THOUGHT_PATTERN = "Thought: ([^\n]*)"\<close>: the match
  is anchored at the start of \<open>s\<close>; the result is group 1.
\<close>

definition re_match_thought :: "string \<Rightarrow> string option" where
  "re_match_thought s =
     (if prefix ''Thought: '' s then Some (takeWhile (\<lambda>c. c \<noteq> nl) (drop 9 s)) else None)"

text \<open>
  The optional last group \<open>(\s*#\w+\n)?\<close> of the action pattern: the rest of the string
  after the group when it matches, the string itself when it does not.
\<close>

definition skip_trailing_comment :: "string \<Rightarrow> string" where
  "skip_trailing_comment s =
     (case dropWhile is_space s of
        [] \<Rightarrow> s
      | c # u \<Rightarrow>
          if c = CHR ''#'' \<and> takeWhile is_word u \<noteq> [] then
            (case dropWhile is_word u of
               [] \<Rightarrow> s
             | d # v \<Rightarrow> if d = nl then v else s)
          else s)"

text \<open>
  \<open>ACTION_PATTERN = "\s*\n*(\d+)\. (\w+)\((.*)\)(\s*#\w+\n)?"\<close>, anchored at the start of
  the string. Every quantifier is greedy and is followed by a character outside its
  class, so the match is unique: leading white space, the longest run of digits, a dot
  and a space, the longest run of word characters, an opening parenthesis, and the
  arguments up to the last closing parenthesis before the next newline (\<open>.\<close> does not
  match a newline). The result is the groups \<open>(idx, tool_name, args)\<close> and the rest of the
  string after the match.
\<close>

definition re_match_action :: "string \<Rightarrow> ((string \<times> string \<times> string) \<times> string) option" where
  "re_match_action s =
     (let s1 = dropWhile is_space s;
          ds = takeWhile is_digit s1;
          s2 = dropWhile is_digit s1
      in if ds = [] then None
         else (case s2 of
                 c1 # c2 # s3 \<Rightarrow>
                   if c1 = CHR ''.'' \<and> c2 = CHR '' '' then
                     (let nm = takeWhile is_word s3;
                          s4 = dropWhile is_word s3
                      in if nm = [] then None
                         else (case s4 of
                                 c3 # s5 \<Rightarrow>
                                   if c3 = CHR ''('' then
                                     (let line = takeWhile (\<lambda>c. c \<noteq> nl) s5;
                                          rest = dropWhile (\<lambda>c. c \<noteq> nl) s5
                                      in if CHR '')'' \<in> set line then
                                           Some ((ds, nm,
                                                  rev (tl (dropWhile (\<lambda>c. c \<noteq> CHR '')'') (rev line)))),
                                                 skip_trailing_comment
                                                   (rev (takeWhile (\<lambda>c. c \<noteq> CHR '')'') (rev line)) @ rest))
                                         else None)
                                   else None
                               | [] \<Rightarrow> None))
                   else None
               | _ \<Rightarrow> None))"








section \<open>Batch parsing (\<open>plan_utils.parse_plan\<close>)\<close>





section \<open>The streaming parser (\<open>planner.StreamingGraphParser\<close>)\<close>

text \<open>
  Modelled from the spec: \<open>instantiate_task\<close> (module \<open>llm_compiler/output_parser.py\<close>) is
  not part of the sources. By the spec it returns a fully constructed task: the
  arguments parsed by the argument parser, the dependencies computed from the \<open>$k\<close>
  references of the raw arguments, \<open>is_join\<close> for the tool name \<open>join\<close>, which is reserved
  and never registered; an action whose tool name is not in the registry is a
  tool-hallucination error and raises. The text of that error is not specified; the
  model takes the tool name.
\<close>

fun dollar_refs :: "string \<Rightarrow> nat list" where
  "dollar_refs [] = []"
| "dollar_refs (c # cs) =
     (if c = CHR ''$'' \<and> takeWhile is_digit cs \<noteq> []
      then nat_of_digits (takeWhile is_digit cs) # dollar_refs cs
      else dollar_refs cs)"

definition instantiate_task ::
  "literal_eval \<Rightarrow> tool list \<Rightarrow> nat \<Rightarrow> string \<Rightarrow> string \<Rightarrow> string \<Rightarrow> py_error + task" where
  "instantiate_task lit tools i tname raw_args th =
     (if tname \<noteq> ''join'' \<and> find (\<lambda>t. tool_name t = tname) tools = None
      then Inl (ToolNotFound tname)
      else Inr \<lparr>idx = i,
                name = tname,
                args = parse_llm_compiler_action_args lit raw_args,
                dependencies = remdups (dollar_refs raw_args),
                thought = Some th,
                observation = None,
                is_join = (tname = ''join'')\<rparr>)"

text \<open>
  The state of the parser. The planner imports the two patterns from
  \<open>output_parser.py\<close>, which is not part of the sources; the model uses the patterns of
  \<open>plan_utils.py\<close>, as the batch parser does.
\<close>

record parser =
  buffer :: string
  p_thought :: string

definition parser_init :: parser where
  "parser_init = \<lparr>buffer = '''', p_thought = ''''\<rparr>"

text \<open>
  \<open>_match_buffer_and_generate_task\<close>: the new state and either the exception raised or
  the value returned (a task or \<open>None\<close>).
\<close>

definition match_buffer_and_generate_task ::
  "literal_eval \<Rightarrow> tool list \<Rightarrow> parser \<Rightarrow> parser \<times> (py_error + task option)" where
  "match_buffer_and_generate_task lit tools p =
     (case re_match_thought (buffer p) of
        Some th \<Rightarrow> (p\<lparr>p_thought := th\<rparr>, Inr None)
      | None \<Rightarrow>
          (case re_match_action (buffer p) of
             Some ((ds, tname, raw_args), rest) \<Rightarrow>
               (case instantiate_task lit tools (nat_of_digits ds) tname raw_args (p_thought p) of
                  Inl e \<Rightarrow> (p, Inl e)
                | Inr t \<Rightarrow> (p\<lparr>p_thought := ''''\<rparr>, Inr (Some t)))
           | None \<Rightarrow> (p, Inr None)))"

text \<open>
  \<open>ingest_token\<close>. \<open>token.split("\n", 1)\<close> cuts the token at its first newline only. When
  the match raises, the buffer keeps the line just appended (the assignment
  \<open>self.buffer = suffix\<close> is not reached).
\<close>

definition ingest_token ::
  "literal_eval \<Rightarrow> tool list \<Rightarrow> parser \<Rightarrow> string \<Rightarrow> parser \<times> (py_error + task option)" where
  "ingest_token lit tools p token =
     (if nl \<in> set token then
        (let pfx = strip (takeWhile (\<lambda>c. c \<noteq> nl) token);
             suffix = tl (dropWhile (\<lambda>c. c \<noteq> nl) token);
             p1 = p\<lparr>buffer := buffer p @ pfx @ [nl]\<rparr>
         in case match_buffer_and_generate_task lit tools p1 of
              (p2, Inl e) \<Rightarrow> (p2, Inl e)
            | (p2, Inr matched_item) \<Rightarrow> (p2\<lparr>buffer := suffix\<rparr>, Inr matched_item))
      else (p\<lparr>buffer := buffer p @ token\<rparr>, Inr None))"

definition finalize :: "literal_eval \<Rightarrow> tool list \<Rightarrow> parser \<Rightarrow> parser \<times> (py_error + task option)" where
  "finalize lit tools p = match_buffer_and_generate_task lit tools (p\<lparr>buffer := buffer p @ [nl]\<rparr>)"

section \<open>The planner callback (\<open>planner.LLMCompilerCallback\<close>)\<close>

text \<open>
  The marker \<open>LLM_ERROR_TOKEN\<close> of \<open>tiny_agent/models.py\<close>.
\<close>

definition LLM_ERROR_TOKEN :: string where
  "LLM_ERROR_TOKEN = ''###LLM_ERROR_TOKEN###''"

text \<open>
  The state of the callback together with the two queues it writes: the task queue
  \<open>_queue\<close> (tasks and the end-of-plan sentinel \<open>None\<close>) and the process-wide
  \<open>streaming_queue\<close> of tokens. A queue is the list of what was put on it, oldest first.
\<close>

record callback =
  cb_parser :: parser
  cb_tools :: "tool list"
  curr_idx :: nat
  queue :: "task option list"
  streaming_queue :: "string option list"

definition callback_init :: "tool list \<Rightarrow> callback" where
  "callback_init tools =
     \<lparr>cb_parser = parser_init, cb_tools = tools, curr_idx = 0, queue = [], streaming_queue = []\<rparr>"

text \<open>The observation of the synthetic join task.\<close>

definition stop_observation :: "string \<Rightarrow> py_error \<Rightarrow> string" where
  "stop_observation buf e =
     ''The plan generation was stopped due to an error in tool '' @ [squote] @ strip buf @ [squote] @
     ''! Error: '' @ error_str e @ ''! You MUST correct this error and try again!''"

text \<open>
  \<open>on_llm_new_token\<close>: the new state and the exception the call raises, if any. An
  exception of the parser is caught by \<open>except Exception\<close>; the handler puts the synthetic
  join and the sentinel on the task queue and raises \<open>TinyAgentEarlyStop\<close>.
\<close>

definition on_llm_new_token ::
  "literal_eval \<Rightarrow> callback \<Rightarrow> string \<Rightarrow> callback \<times> py_error option" where
  "on_llm_new_token lit cb token =
     (case ingest_token lit (cb_tools cb) (cb_parser cb) token of
        (p', Inr parsed_data) \<Rightarrow>
          (let cb1 = cb\<lparr>cb_parser := p', streaming_queue := streaming_queue cb @ [Some token]\<rparr>
           in case parsed_data of
                None \<Rightarrow> (cb1, None)
              | Some t \<Rightarrow>
                  (cb1\<lparr>curr_idx := idx t,
                       queue := queue cb1 @ [Some t] @ (if is_join t then [None] else [])\<rparr>,
                   None))
      | (p', Inl e) \<Rightarrow>
          (case instantiate_task lit (cb_tools cb) (curr_idx cb + 1) ''join'' '''' '''' of
             Inl e' \<Rightarrow> (cb\<lparr>cb_parser := p'\<rparr>, Some e')
           | Inr join_tool \<Rightarrow>
               (cb\<lparr>cb_parser := p',
                   queue := queue cb @
                     [Some (join_tool\<lparr>observation := Some (stop_observation (buffer p') e)\<rparr>), None]\<rparr>,
                Some (TinyAgentEarlyStop (error_str e)))))"

text \<open>Feeding the tokens of a stream one by one, until a call raises.\<close>

fun feed_tokens :: "literal_eval \<Rightarrow> callback \<Rightarrow> string list \<Rightarrow> callback \<times> py_error option" where
  "feed_tokens lit cb [] = (cb, None)"
| "feed_tokens lit cb (token # tokens) =
     (case on_llm_new_token lit cb token of
        (cb', None) \<Rightarrow> feed_tokens lit cb' tokens
      | (cb', Some e) \<Rightarrow> (cb', Some e))"

text \<open>\<open>on_llm_end\<close>: the last match attempt, and the sentinel.\<close>

definition on_llm_end :: "literal_eval \<Rightarrow> callback \<Rightarrow> callback \<times> py_error option" where
  "on_llm_end lit cb =
     (case finalize lit (cb_tools cb) (cb_parser cb) of
        (p', Inl e) \<Rightarrow> (cb\<lparr>cb_parser := p'\<rparr>, Some e)
      | (p', Inr parsed_data) \<Rightarrow>
          (cb\<lparr>cb_parser := p',
              queue := queue cb @ (case parsed_data of None \<Rightarrow> [] | Some t \<Rightarrow> [Some t]) @ [None]\<rparr>,
           None))"

text \<open>\<open>on_llm_error\<close>, on the streaming queue.\<close>

definition on_llm_error :: "py_error \<Rightarrow> string option list \<Rightarrow> string option list" where
  "on_llm_error error sq =
     (case error of
        TinyAgentEarlyStop _ \<Rightarrow> sq
      | _ \<Rightarrow> sq @ [Some (LLM_ERROR_TOKEN @ ''LLMError: '' @ error_str error)])"

text \<open>
  The streaming parser as a function of the token list: the tasks \<open>ingest_token\<close> returns,
  in order, and then the task of \<open>finalize\<close>, or the exception of the first call that
  raises.
\<close>

fun parser_run :: "literal_eval \<Rightarrow> tool list \<Rightarrow> parser \<Rightarrow> string list \<Rightarrow> py_error + task list" where
  "parser_run lit tools p [] =
     (case finalize lit tools p of
        (p', Inl e) \<Rightarrow> Inl e
      | (p', Inr None) \<Rightarrow> Inr []
      | (p', Inr (Some t)) \<Rightarrow> Inr [t])"
| "parser_run lit tools p (token # tokens) =
     (case ingest_token lit tools p token of
        (p', Inl e) \<Rightarrow> Inl e
      | (p', Inr r) \<Rightarrow>
          (case parser_run lit tools p' tokens of
             Inl e \<Rightarrow> Inl e
           | Inr ts \<Rightarrow> Inr ((case r of None \<Rightarrow> [] | Some t \<Rightarrow> [t]) @ ts)))"

definition streaming_parse :: "literal_eval \<Rightarrow> tool list \<Rightarrow> string list \<Rightarrow> py_error + task list" where
  "streaming_parse lit tools tokens = parser_run lit tools parser_init tokens"

section \<open>The transport (\<open>run_tiny_agent_server.execute_command.generate\<close>)\<close>

text \<open>
  One iteration of the loop of \<open>generate\<close> observes the outcome of
  \<open>wait_for(streaming_queue.get(), timeout=1.0)\<close>, a dequeued token or a timeout, and
  then whether the agent task is done. The generator is modelled on the list of these
  observations. Its result is the list of the strings it yields and how it ends:
  completed, ended by an exception that leaves the generator, or still in its loop when
  the observations end.
\<close>

datatype event = Token "string option" | Timeout

datatype gen_end = Completed | Raised py_error | Running

text \<open>
  After the loop: \<open>await response_task\<close> returns the response or raises what the agent
  raised; \<open>except Exception\<close> of \<open>generate\<close> turns an exception into a last chunk.
\<close>

definition handle_exception :: "py_error \<Rightarrow> string list \<times> gen_end" where
  "handle_exception e =
     (if is_exception e then ([''Error: '' @ error_str e], Completed) else ([], Raised e))"

definition after_loop :: "py_error + string \<Rightarrow> string list \<times> gen_end" where
  "after_loop result =
     (case result of
        Inl e \<Rightarrow> handle_exception e
      | Inr response \<Rightarrow> ([[nl, nl] @ response], Completed))"

fun generate :: "(event \<times> bool) list \<Rightarrow> py_error + string \<Rightarrow> string list \<times> gen_end" where
  "generate [] result = ([], Running)"
| "generate ((Token None, done) # evs) result = after_loop result"
| "generate ((Token (Some token), done) # evs) result =
     (if prefix LLM_ERROR_TOKEN token
      then handle_exception (PyException (drop (length LLM_ERROR_TOKEN) token))
      else (let (ys, e) = (if done then after_loop result else generate evs result)
            in (token # ys, e)))"
| "generate ((Timeout, done) # evs) result =
     (if done then after_loop result else generate evs result)"

text \<open>The tokens among a list of observations, in order.\<close>

fun event_tokens :: "(event \<times> bool) list \<Rightarrow> string list" where
  "event_tokens [] = []"
| "event_tokens ((Token (Some token), done) # evs) = token # event_tokens evs"
| "event_tokens (ev # evs) = event_tokens evs"

text \<open>
  An observation that keeps the loop of \<open>generate\<close> running: the agent task is not done,
  and the observation is a timeout or a token without the error marker.
\<close>

fun keeps_running :: "event \<times> bool \<Rightarrow> bool" where
  "keeps_running (Timeout, done) = (\<not> done)"
| "keeps_running (Token None, done) = False"
| "keeps_running (Token (Some token), done) = (\<not> done \<and> \<not> prefix LLM_ERROR_TOKEN token)"

text \<open>The tasks on a task queue, without the sentinels.\<close>

fun queue_tasks :: "task option list \<Rightarrow> task list" where
  "queue_tasks [] = []"
| "queue_tasks (None # q) = queue_tasks q"
| "queue_tasks (Some t # q) = t # queue_tasks q"

text \<open>
  What the callback keeps between two tokens: \<open>_curr_idx\<close> is the idx of the last task
  put on the task queue, and 0 while no task has been put.
\<close>

definition cb_inv :: "callback \<Rightarrow> bool" where
  "cb_inv cb = (curr_idx cb = (if queue_tasks (queue cb) = [] then 0 else idx (last (queue_tasks (queue cb)))))"

section \<open>Plans written one action per line\<close>





section \<open>Properties of the argument parser and of the prompts\<close>

text \<open>
  Claim C4. For every raw argument string the argument parser returns a tuple or a list.
  The empty string gives the empty tuple. Otherwise the literal evaluation of the whole
  string is attempted: a result that is a list or a tuple is returned as it is, any other
  result is wrapped as a one-element tuple, and when the evaluation fails the raw string
  itself is wrapped as a one-element tuple. This holds for every behaviour \<open>lit\<close> of the
  literal evaluator.
\<close>

theorem parse_args_tuple_or_list:
  "is_list_or_tuple (parse_llm_compiler_action_args lit raw_args) \<and>
   parse_llm_compiler_action_args lit [] = PTuple [] \<and>
   (raw_args \<noteq> [] \<longrightarrow>
      parse_llm_compiler_action_args lit raw_args =
        (case lit raw_args of
           None \<Rightarrow> PTuple [PStr raw_args]
         | Some v \<Rightarrow> if is_list_or_tuple v then v else PTuple [v]))"
  by (cases "lit raw_args") (auto simp: parse_llm_compiler_action_args_def Let_def)

theorem parse_args_tuple_or_list_witness:
  "parse_llm_compiler_action_args (\<lambda>s. if s = ''[3]'' then Some (PList [PInt 3]) else None) ''[3]''
     = PList [PInt 3] \<and>
   parse_llm_compiler_action_args (\<lambda>s. if s = ''[3]'' then Some (PList [PInt 3]) else None) ''$1''
     = PTuple [PStr ''$1'']"
  using parse_args_tuple_or_list [of "\<lambda>s. if s = ''[3]'' then Some (PList [PInt 3]) else None" "''[3]''"]
        parse_args_tuple_or_list [of "\<lambda>s. if s = ''[3]'' then Some (PList [PInt 3]) else None" "''$1''"]
  by simp

text \<open>The loop over the tools appends the numbered entries and leaves \<open>i\<close> at the last index.\<close>

lemma tools_loop_eq:
  "tools_loop (pfx, i) k ts =
     (pfx @ concat (map (\<lambda>(j, t). show_nat (j + 1) @ ''. '' @ description t @ [nl]) (enumerate k ts)),
      if ts = [] then i else Some (k + length ts - 1))"
  by (induction ts arbitrary: pfx i k) auto

text \<open>
  Claim C9. The planner system prompt is only defined when at least one tool is registered.
  For the empty tool sequence the function fails with an unbound local variable (the join
  entry reads the loop variable \<open>i\<close>, which no iteration has bound). For every non-empty
  tool sequence the prompt lists the tools as entries \<open>1..n\<close> and then the join entry as
  entry \<open>n + 1\<close>.
\<close>

theorem prompt_needs_a_tool:
  "generate_llm_compiler_prompt [] example_prompt custom_instructions is_replan = Inl UnboundLocalError \<and>
   (tools \<noteq> [] \<longrightarrow>
      generate_llm_compiler_prompt tools example_prompt custom_instructions is_replan =
        Inr (prompt_opening (length tools + 1) @
             concat (map (\<lambda>(j, t). show_nat (j + 1) @ ''. '' @ description t @ [nl]) (enumerate 0 tools)) @
             show_nat (length tools + 1) @ ''. '' @ JOIN_DESCRIPTION @ [nl] @ [nl] @
             prompt_rest example_prompt custom_instructions is_replan))"
  by (cases tools) (simp_all add: generate_llm_compiler_prompt_def tools_loop_eq)

theorem prompt_needs_a_tool_witness:
  "generate_llm_compiler_prompt [] ''ex'' None False = Inl UnboundLocalError \<and>
   generate_llm_compiler_prompt
      [\<lparr>tool_name = ''a'', description = ''a(): first''\<rparr>, \<lparr>tool_name = ''b'', description = ''b(x): second''\<rparr>]
      ''ex'' None False =
     Inr (prompt_opening 3 @ ''1. a(): first'' @ [nl] @ ''2. b(x): second'' @ [nl] @
          ''3. '' @ JOIN_DESCRIPTION @ [nl] @ [nl] @ prompt_rest ''ex'' None False)"
proof -
  have s: "show_nat (Suc 0) = ''1''" "show_nat (Suc (Suc 0)) = ''2''" "show_nat (Suc (Suc (Suc 0))) = ''3''"
    by code_simp+
  have e: "enumerate 0 [a, b] = [(0, a), (Suc 0, b)]" for a b :: tool
    by simp
  show ?thesis
    using prompt_needs_a_tool [of "''ex''" None False
      "[\<lparr>tool_name = ''a'', description = ''a(): first''\<rparr>, \<lparr>tool_name = ''b'', description = ''b(x): second''\<rparr>]"]
    by (simp add: s e numeral_3_eq_3)
qed

text \<open>
  Claim C8. The human prompt is exactly \<open>Question: {input}\<close> when not replanning, and
  \<open>Question: {input}\<close>, a newline, the context and a trailing newline when replanning.
  Replanning without a context fails the planner's assertion.
\<close>

theorem human_prompt_shape:
  "(inputs ''input'' = Some q \<longrightarrow>
      run_llm_prompts p inputs False = Inr (system_prompt p, ''Question: '' @ q)) \<and>
   (inputs ''input'' = Some q \<and> inputs ''context'' = Some c \<longrightarrow>
      run_llm_prompts p inputs True =
        Inr (system_prompt_replan p, ''Question: '' @ q @ [nl] @ c @ [nl])) \<and>
   (inputs ''context'' = None \<longrightarrow>
      run_llm_prompts p inputs True = Inl (AssertionError ''If replanning, context must be provided''))"
  by (simp add: run_llm_prompts_def)

theorem human_prompt_shape_witness:
  "run_llm_prompts \<lparr>system_prompt = ''S'', system_prompt_replan = ''R''\<rparr>
      [''input'' \<mapsto> ''call Bob'', ''context'' \<mapsto> ''Idx: 1''] False = Inr (''S'', ''Question: call Bob'') \<and>
   run_llm_prompts \<lparr>system_prompt = ''S'', system_prompt_replan = ''R''\<rparr>
      [''input'' \<mapsto> ''call Bob'', ''context'' \<mapsto> ''Idx: 1''] True =
      Inr (''R'', ''Question: call Bob'' @ [nl] @ ''Idx: 1'' @ [nl]) \<and>
   run_llm_prompts \<lparr>system_prompt = ''S'', system_prompt_replan = ''R''\<rparr>
      [''input'' \<mapsto> ''call Bob''] True = Inl (AssertionError ''If replanning, context must be provided'')"
  using human_prompt_shape [of "[''input'' \<mapsto> ''call Bob'', ''context'' \<mapsto> ''Idx: 1'']" "''call Bob''"
           "\<lparr>system_prompt = ''S'', system_prompt_replan = ''R''\<rparr>" "''Idx: 1''"]
        human_prompt_shape [of "[''input'' \<mapsto> ''call Bob'']" "''call Bob''"
           "\<lparr>system_prompt = ''S'', system_prompt_replan = ''R''\<rparr>" "''x''"]
  by simp

section \<open>Properties of the joinner output parser\<close>

text \<open>
  The index \<open>[1]\<close> that \<open>joinner_line\<close> reads is in range: a string that starts with the
  separator splits into at least two pieces.
\<close>

lemma split_str_aux_ne: "split_str_aux sep k acc s \<noteq> []"
  by (induction sep k acc s rule: split_str_aux.induct) auto

lemma split_str_prefix:
  assumes "prefix sep s" "sep \<noteq> []"
  shows "length (split_str sep s) \<ge> 2"
proof -
  from assms obtain c cs where s: "s = c # cs" by (cases s) auto
  have "split_str sep s = [] # split_str_aux sep (length sep - 1) [] cs"
    using assms by (simp add: split_str_def s)
  moreover have "length (split_str_aux sep (length sep - 1) [] cs) \<ge> 1"
    using split_str_aux_ne[of sep "length sep - 1" "[]" cs] by (cases "split_str_aux sep (length sep - 1) [] cs") auto
  ultimately show ?thesis by simp
qed





















section \<open>The error marker on the streaming queue\<close>

text \<open>
  While the agent task is not done and the queue gives timeouts and plain tokens, the
  generator stays in its loop and yields the tokens in order.
\<close>

lemma generate_running_prefix:
  "\<forall>ev \<in> set evs. keeps_running ev \<Longrightarrow>
   generate (evs @ rest) result =
     (event_tokens evs @ fst (generate rest result), snd (generate rest result))"
proof (induction evs)
  case Nil
  then show ?case by simp
next
  case (Cons ev evs)
  obtain e d where ev: "ev = (e, d)" by (cases ev)
  show ?case
  proof (cases e)
    case Timeout
    then show ?thesis using Cons ev by simp
  next
    case (Token x)
    then show ?thesis using Cons ev by (cases x) (auto simp: case_prod_beta)
  qed
qed

text \<open>
  Claim C7, as amended. An error of the LLM call that is not \<open>TinyAgentEarlyStop\<close> makes
  \<open>on_llm_error\<close> put \<open>LLM_ERROR_TOKEN\<close> followed by \<open>LLMError: \<close> and the message of the
  error on the streaming queue. When the generator of the \<open>/generate\<close> endpoint takes a token
  with that prefix from the queue, whatever the queue holds after it and whatever the agent
  task does, it does not yield the token: it raises the remainder inside its own
  \<open>try\<close> block, whose \<open>except Exception\<close> handler yields one last chunk, \<open>Error: \<close>
  followed by the remainder, and the generator ends normally. The failure reaches the caller
  as the last chunk of the output, not as an exception.
\<close>

theorem llm_error_marker:
  "(is_exception e \<longrightarrow>
      on_llm_error e sq = sq @ [Some (LLM_ERROR_TOKEN @ ''LLMError: '' @ error_str e)]) \<and>
   ((\<forall>ev \<in> set evs. keeps_running ev) \<longrightarrow>
      generate (evs @ (Token (Some (LLM_ERROR_TOKEN @ r)), d) # rest) result =
        (event_tokens evs @ [''Error: '' @ r], Completed))"
proof (intro conjI impI)
  assume "is_exception e"
  then show "on_llm_error e sq = sq @ [Some (LLM_ERROR_TOKEN @ ''LLMError: '' @ error_str e)]"
    by (cases e) (simp_all add: on_llm_error_def is_exception_def)
next
  assume h: "\<forall>ev \<in> set evs. keeps_running ev"
  have "generate ((Token (Some (LLM_ERROR_TOKEN @ r)), d) # rest) result = ([''Error: '' @ r], Completed)"
    by (simp add: handle_exception_def is_exception_def)
  then show "generate (evs @ (Token (Some (LLM_ERROR_TOKEN @ r)), d) # rest) result =
        (event_tokens evs @ [''Error: '' @ r], Completed)"
    using generate_running_prefix[OF h, of "(Token (Some (LLM_ERROR_TOKEN @ r)), d) # rest" result]
    by simp
qed

text \<open>
  The theorem at a concrete stream: one token, one timeout, then the marker that
  \<open>on_llm_error\<close> produced for \<open>Exception("boom")\<close>.
\<close>

theorem llm_error_marker_witness:
  "on_llm_error (PyException ''boom'') [Some ''1. ''] =
     [Some ''1. '', Some (LLM_ERROR_TOKEN @ ''LLMError: boom'')] \<and>
   generate [(Token (Some ''1. ''), False), (Timeout, False),
             (Token (Some (LLM_ERROR_TOKEN @ ''LLMError: boom'')), False)] (Inr ''answer'') =
     ([''1. '', ''Error: LLMError: boom''], Completed)"
proof -
  have k: "\<forall>ev \<in> set [(Token (Some ''1. ''), False), (Timeout, False)]. keeps_running ev"
    by (simp add: LLM_ERROR_TOKEN_def)
  have x: "is_exception (PyException ''boom'')" by (simp add: is_exception_def)
  show ?thesis
    using llm_error_marker [of "PyException ''boom''" "[Some ''1. '']"
        "[(Token (Some ''1. ''), False), (Timeout, False)]" "''LLMError: boom''" False "[]" "Inr ''answer''"]
      k x
    by simp
qed

text \<open>
  Claim C7 as stated does not hold: the generator does not end by raising the remainder with
  nothing yielded for it. On the marker for \<open>LLMError: boom\<close> it yields the chunk
  \<open>Error: LLMError: boom\<close> and completes.
\<close>

theorem llm_error_marker_counterexample:
  "\<not> (\<forall>r evs result.
        generate ((Token (Some (LLM_ERROR_TOKEN @ r)), False) # evs) result = ([], Raised (PyException r)))"
proof
  assume a: "\<forall>r evs result.
        generate ((Token (Some (LLM_ERROR_TOKEN @ r)), False) # evs) result = ([], Raised (PyException r))"
  have "generate ((Token (Some (LLM_ERROR_TOKEN @ ''LLMError: boom'')), False) # []) (Inr ''answer'')
          = ([''Error: LLMError: boom''], Completed)"
    by (simp add: handle_exception_def is_exception_def)
  then show False using a by simp
qed

section \<open>Recovery from a parse error in the planner callback\<close>

lemma queue_tasks_append: "queue_tasks (q @ r) = queue_tasks q @ queue_tasks r"
  by (induction q rule: queue_tasks.induct) auto

lemma on_llm_new_token_inv:
  assumes "cb_inv cb" "on_llm_new_token lit cb token = (cb', None)"
  shows "cb_inv cb'"
  using assms
  unfolding on_llm_new_token_def cb_inv_def
  by (auto simp: Let_def queue_tasks_append split: prod.splits sum.splits option.splits if_splits)

lemma feed_tokens_inv:
  assumes "cb_inv cb" "feed_tokens lit cb tokens = (cb', None)"
  shows "cb_inv cb'"
  using assms
proof (induction tokens arbitrary: cb)
  case Nil
  then show ?case by simp
next
  case (Cons token tokens)
  obtain cb1 r where s: "on_llm_new_token lit cb token = (cb1, r)" by (cases "on_llm_new_token lit cb token")
  show ?case
  proof (cases r)
    case None
    then have "cb_inv cb1" using Cons.prems(1) s on_llm_new_token_inv by blast
    moreover have "feed_tokens lit cb1 tokens = (cb', None)" using Cons.prems(2) s None by simp
    ultimately show ?thesis using Cons.IH by blast
  next
    case (Some e)
    then show ?thesis using Cons.prems(2) s by simp
  qed
qed

lemma try_again_in_observation: "sublist ''try again'' (stop_observation buf e)"
proof -
  have "stop_observation buf e =
      (''The plan generation was stopped due to an error in tool '' @ [squote] @ strip buf @ [squote] @
       ''! Error: '' @ error_str e @ ''! You MUST correct this error and '') @ ''try again'' @ ''!''"
    by (simp add: stop_observation_def)
  then show ?thesis by (metis sublist_appendI)
qed

text \<open>
  Claim C3. Let the callback have taken the tokens of a stream without an error, and let
  the streaming parser raise \<open>e\<close> on the next token. Then \<open>on_llm_new_token\<close> puts on the task
  queue a join task and, right after it, the end-of-plan sentinel \<open>None\<close>, and raises
  \<open>TinyAgentEarlyStop\<close> with the message of \<open>e\<close>. The idx of that join task is one more than
  the idx of the last task parsed before (1 when none was parsed), and its observation
  contains the phrase \<open>try again\<close>. Nothing is put on the streaming queue, and
  \<open>on_llm_error\<close> leaves the streaming queue as it is for this exception.
\<close>

theorem parse_error_recovery:
  assumes "feed_tokens lit (callback_init tools) tokens = (cb, None)"
    and "snd (ingest_token lit (cb_tools cb) (cb_parser cb) token) = Inl e"
  shows "\<exists>cb' j obs.
           on_llm_new_token lit cb token = (cb', Some (TinyAgentEarlyStop (error_str e))) \<and>
           queue cb' = queue cb @ [Some j, None] \<and>
           streaming_queue cb' = streaming_queue cb \<and>
           is_join j \<and>
           idx j = (if queue_tasks (queue cb) = [] then 1 else idx (last (queue_tasks (queue cb))) + 1) \<and>
           observation j = Some obs \<and> sublist ''try again'' obs \<and>
           on_llm_error (TinyAgentEarlyStop (error_str e)) (streaming_queue cb') = streaming_queue cb'"
proof -
  have "cb_inv (callback_init tools)" by (simp add: cb_inv_def callback_init_def)
  then have inv: "cb_inv cb" using assms(1) feed_tokens_inv by blast
  obtain p' where ing: "ingest_token lit (cb_tools cb) (cb_parser cb) token = (p', Inl e)"
    using assms(2) by (cases "ingest_token lit (cb_tools cb) (cb_parser cb) token") auto
  define j where "j = \<lparr>idx = curr_idx cb + 1, name = ''join'',
        args = parse_llm_compiler_action_args lit '''', dependencies = remdups (dollar_refs ''''),
        thought = Some '''', observation = Some (stop_observation (buffer p') e), is_join = True\<rparr>"
  define cb' where "cb' = cb\<lparr>cb_parser := p', queue := queue cb @ [Some j, None]\<rparr>"
  have step: "on_llm_new_token lit cb token = (cb', Some (TinyAgentEarlyStop (error_str e)))"
    by (simp add: on_llm_new_token_def ing instantiate_task_def cb'_def j_def)
  have i: "idx j = (if queue_tasks (queue cb) = [] then 1 else idx (last (queue_tasks (queue cb))) + 1)"
    using inv by (simp add: j_def cb_inv_def)
  show ?thesis
    using step i try_again_in_observation[of "buffer p'" e]
    by (intro exI[of _ cb'] exI[of _ j] exI[of _ "stop_observation (buffer p') e"])
       (simp add: cb'_def j_def on_llm_error_def)
qed

text \<open>
  The theorem on a stream with one registered tool \<open>a\<close>: after the line \<open>1. a(x)\<close>, the
  line \<open>2. b(y)\<close> names an unknown tool; the synthetic join gets idx 2.
\<close>

theorem parse_error_recovery_witness:
  "\<exists>cb' j obs.
     on_llm_new_token (\<lambda>_. None)
        (fst (feed_tokens (\<lambda>_. None) (callback_init [\<lparr>tool_name = ''a'', description = ''d''\<rparr>])
               [''1. a(x)'' @ [nl]]))
        (''2. b(y)'' @ [nl]) = (cb', Some (TinyAgentEarlyStop ''b'')) \<and>
     queue cb' = [Some \<lparr>idx = 1, name = ''a'', args = PTuple [PStr ''x''], dependencies = [],
                          thought = Some [], observation = None, is_join = False\<rparr>,
                  Some j, None] \<and>
     is_join j \<and> idx j = 2 \<and> observation j = Some obs \<and> sublist ''try again'' obs"
proof -
  let ?lit = "\<lambda>_ :: string. None :: pyval option"
  let ?tools = "[\<lparr>tool_name = ''a'', description = ''d''\<rparr>]"
  let ?cb = "fst (feed_tokens ?lit (callback_init ?tools) [''1. a(x)'' @ [nl]])"
  have cb: "?cb = \<lparr>cb_parser = \<lparr>buffer = [], p_thought = []\<rparr>, cb_tools = ?tools, curr_idx = 1,
        queue = [Some \<lparr>idx = 1, name = ''a'', args = PTuple [PStr ''x''], dependencies = [],
                          thought = Some [], observation = None, is_join = False\<rparr>],
        streaming_queue = [Some (''1. a(x)'' @ [nl])]\<rparr>"
    by code_simp
  have f: "feed_tokens ?lit (callback_init ?tools) [''1. a(x)'' @ [nl]] = (?cb, None)"
    by code_simp
  have g: "snd (ingest_token ?lit (cb_tools ?cb) (cb_parser ?cb) (''2. b(y)'' @ [nl])) = Inl (ToolNotFound ''b'')"
    by code_simp
  show ?thesis
    using parse_error_recovery [OF f g] unfolding cb
    by (simp add: queue_tasks_append numeral_2_eq_2) blast
qed

section \<open>Tokens with more than one newline\<close>

lemma takeWhile_line: "nl \<notin> set l \<Longrightarrow> takeWhile (\<lambda>c. c \<noteq> nl) (l @ nl # rest) = l"
  by (induction l) auto

lemma dropWhile_line: "nl \<notin> set l \<Longrightarrow> dropWhile (\<lambda>c. c \<noteq> nl) (l @ nl # rest) = nl # rest"
  by (induction l) auto

text \<open>
  Claim C2, where the code departs from it. \<open>ingest_token\<close> cuts a token at its first
  newline only. What it returns for a token \<open>l @ nl # rest\<close>, with no newline in \<open>l\<close>, is
  what it returns for \<open>l @ [nl]\<close>: the match runs once, on the buffer up to the first
  newline, and unless it raises the buffer is left holding \<open>rest\<close>, with every further line
  of the token in it, none of them matched. So the match does not run on every newline
  of the token, as the docstring of \<open>_match_buffer_and_generate_task\<close> announces.
\<close>

theorem ingest_token_first_newline_only:
  assumes "nl \<notin> set l"
  shows "snd (ingest_token lit tools p (l @ nl # rest)) = snd (ingest_token lit tools p (l @ [nl])) \<and>
         (case snd (ingest_token lit tools p (l @ nl # rest)) of
            Inl e \<Rightarrow> True
          | Inr r \<Rightarrow> buffer (fst (ingest_token lit tools p (l @ nl # rest))) = rest)"
  using assms
  by (simp add: ingest_token_def takeWhile_line dropWhile_line Let_def split: prod.splits sum.splits)

text \<open>
  The consequence on a plan of three lines. Fed line by line, the parser returns the tasks
  1, 2 and the join. When the first token holds the first two lines, the first call
  returns task 1 only and leaves line 2 in the buffer; the second call matches the buffer
  from its start, returns task 2, and the join line is dropped.
\<close>

theorem ingest_token_first_newline_only_witness:
  "snd (ingest_token (\<lambda>_. None) [\<lparr>tool_name = ''a'', description = ''d''\<rparr>] parser_init
          (''1. a()'' @ nl # ''2. a()'' @ [nl])) =
     Inr (Some \<lparr>idx = 1, name = ''a'', args = PTuple [], dependencies = [],
                  thought = Some [], observation = None, is_join = False\<rparr>) \<and>
   buffer (fst (ingest_token (\<lambda>_. None) [\<lparr>tool_name = ''a'', description = ''d''\<rparr>] parser_init
          (''1. a()'' @ nl # ''2. a()'' @ [nl]))) = ''2. a()'' @ [nl] \<and>
   streaming_parse (\<lambda>_. None) [\<lparr>tool_name = ''a'', description = ''d''\<rparr>]
      [''1. a()'' @ nl # ''2. a()'' @ [nl], ''3. join()'' @ [nl]] =
     Inr [\<lparr>idx = 1, name = ''a'', args = PTuple [], dependencies = [],
             thought = Some [], observation = None, is_join = False\<rparr>,
          \<lparr>idx = 2, name = ''a'', args = PTuple [], dependencies = [],
             thought = Some [], observation = None, is_join = False\<rparr>] \<and>
   streaming_parse (\<lambda>_. None) [\<lparr>tool_name = ''a'', description = ''d''\<rparr>]
      [''1. a()'' @ [nl], ''2. a()'' @ [nl], ''3. join()'' @ [nl]] =
     Inr [\<lparr>idx = 1, name = ''a'', args = PTuple [], dependencies = [],
             thought = Some [], observation = None, is_join = False\<rparr>,
          \<lparr>idx = 2, name = ''a'', args = PTuple [], dependencies = [],
             thought = Some [], observation = None, is_join = False\<rparr>,
          \<lparr>idx = 3, name = ''join'', args = PTuple [], dependencies = [],
             thought = Some [], observation = None, is_join = True\<rparr>]"
proof -
  let ?lit = "\<lambda>_ :: string. None :: pyval option"
  let ?tools = "[\<lparr>tool_name = ''a'', description = ''d''\<rparr>]"
  have n: "nl \<notin> set ''1. a()''" by code_simp
  have a: "snd (ingest_token ?lit ?tools parser_init (''1. a()'' @ [nl])) =
     Inr (Some \<lparr>idx = 1, name = ''a'', args = PTuple [], dependencies = [],
                  thought = Some [], observation = None, is_join = False\<rparr>)"
    by code_simp
  have b: "streaming_parse ?lit ?tools
      [''1. a()'' @ nl # ''2. a()'' @ [nl], ''3. join()'' @ [nl]] =
     Inr [\<lparr>idx = 1, name = ''a'', args = PTuple [], dependencies = [],
             thought = Some [], observation = None, is_join = False\<rparr>,
          \<lparr>idx = 2, name = ''a'', args = PTuple [], dependencies = [],
             thought = Some [], observation = None, is_join = False\<rparr>]"
    by code_simp
  have c: "streaming_parse ?lit ?tools
      [''1. a()'' @ [nl], ''2. a()'' @ [nl], ''3. join()'' @ [nl]] =
     Inr [\<lparr>idx = 1, name = ''a'', args = PTuple [], dependencies = [],
             thought = Some [], observation = None, is_join = False\<rparr>,
          \<lparr>idx = 2, name = ''a'', args = PTuple [], dependencies = [],
             thought = Some [], observation = None, is_join = False\<rparr>,
          \<lparr>idx = 3, name = ''join'', args = PTuple [], dependencies = [],
             thought = Some [], observation = None, is_join = True\<rparr>]"
    by code_simp
  note t = ingest_token_first_newline_only [OF n, of ?lit ?tools parser_init "''2. a()'' @ [nl]"]
  have s: "snd (ingest_token ?lit ?tools parser_init (''1. a()'' @ nl # ''2. a()'' @ [nl])) =
     Inr (Some \<lparr>idx = 1, name = ''a'', args = PTuple [], dependencies = [],
                  thought = Some [], observation = None, is_join = False\<rparr>)"
    using t a by simp
  have u: "buffer (fst (ingest_token ?lit ?tools parser_init (''1. a()'' @ nl # ''2. a()'' @ [nl]))) =
     ''2. a()'' @ [nl]"
    using conjunct2 [OF t] unfolding s by simp
  show ?thesis
    using s u b c by simp
qed

section \<open>Batch parsing stops at the first join\<close>












section \<open>The streaming parser and the batch parser on the same plan\<close>

























end
